theory Spec2Isabelle
  imports Main
begin

section \<open>Values shared by the library and the command-line tool\<close>

text \<open>
  Go strings are byte sequences; they are modelled as \<^typ>\<open>string\<close> (lists of 8-bit
  characters). An \<open>error\<close> is either a value built inside this repository with
  \<open>fmt.Errorf\<close> (an \<open>errors.errorString\<close> carrying the formatted text), or a value
  handed back by a library (net/http, io, encoding/json, net/url, totp). The libraries
  report an error by its message (\<open>liberr\<close>); \<open>External\<close> makes it an \<open>error\<close>, which
  is never one of the values this repository builds. \<open>Error\<close> is the method
  \<open>err.Error()\<close>.
\<close>

type_synonym liberr = string

datatype error = errorString string | External liberr

fun Error :: "error \<Rightarrow> string" where
  "Error (errorString m) = m"
| "Error (External m) = m"

text \<open>
  A Go function either returns or panics. The two panics of the repository are the
  run-time nil pointer dereference and the explicit \<open>panic(err)\<close>.
\<close>

datatype panic = NilDereference | PanicError error

datatype 'a outcome = Panic panic | Return 'a

subsection \<open>HTTP messages\<close>

text \<open>
  \<open>http.Header\<close> maps a key to its list of values; \<open>Set\<close> replaces the list, \<open>Add\<close>
  appends to it. Keys are kept as the source writes them (net/http canonicalises their
  letter case on both sides).
\<close>

type_synonym Header = "(string \<times> string list) list"

fun Header_Set :: "string \<Rightarrow> string \<Rightarrow> Header \<Rightarrow> Header" where
  "Header_Set k v [] = [(k, [v])]"
| "Header_Set k v ((k', vs) # h) =
     (if k' = k then (k, [v]) # h else (k', vs) # Header_Set k v h)"

fun Header_Add :: "string \<Rightarrow> string \<Rightarrow> Header \<Rightarrow> Header" where
  "Header_Add k v [] = [(k, [v])]"
| "Header_Add k v ((k', vs) # h) =
     (if k' = k then (k, vs @ [v]) # h else (k', vs) # Header_Add k v h)"

text \<open>
  A request as \<open>http.NewRequestWithContext\<close> builds it: the method, the URL string it
  was given, the headers, and the body (\<open>None\<close> for a nil \<open>io.Reader\<close>).
\<close>

record Request =
  Method :: string
  URL :: string
  Headers :: Header
  Body :: "string option"

text \<open>
  Of a response the code only reads the body: \<open>RespBody\<close> is what
  \<open>io.ReadAll(resp.Body)\<close> yields, the bytes or a read error.
\<close>

record Response =
  RespBody :: "liberr + string"

text \<open>
  Every call of \<open>http.DefaultClient.Do\<close> is logged with the function that made it:
  \<open>doLogin\<close> (\<open>LoginCall\<close>) or \<open>doRequest\<close> (\<open>ApiCall\<close>).
\<close>

datatype http_call = LoginCall Request | ApiCall Request

fun is_login :: "http_call \<Rightarrow> bool" where
  "is_login (LoginCall r) = True"
| "is_login (ApiCall r) = False"

subsection \<open>Decoded API values\<close>

record SortOrder =
  ByCreated :: int
  ByName :: int

record DNSRecord =
  QualifiedName :: string
  RecordType :: string
  SortOrder :: SortOrder
  Value :: string
  Zone :: string

record APIStatus =
  Status :: string
  Reason :: string

section \<open>The platform: libraries and the network\<close>

text \<open>
  Everything the repository calls but does not define is a field of the platform:
  \<^item> \<open>url_Parse\<close>, \<open>JoinPath\<close>, \<open>URL_String\<close>: \<open>url.Parse\<close>, \<open>(*URL).JoinPath\<close> and
    \<open>(*URL).String\<close> over an abstract type of URLs;
  \<^item> \<open>NewRequest_err\<close>: the error, if any, with which \<open>http.NewRequestWithContext\<close>
    refuses a method and URL string (the context is taken to be non-nil);
  \<^item> \<open>GenerateCode\<close>, \<open>Now\<close>: \<open>totp.GenerateCode\<close> and the reading of \<open>time.Now()\<close>,
    which may depend on what has happened so far;
  \<^item> \<open>Do\<close>: \<open>http.DefaultClient.Do\<close>, the pair \<open>(resp, err)\<close> the network gives for a
    request after the calls made so far; \<open>resp\<close> is \<open>None\<close> for a nil pointer;
  \<^item> \<open>gjson_Get\<close>: \<open>gjson.Get(json, path).String()\<close>;
  \<^item> \<open>Unmarshal_DNSRecords\<close>, \<open>Unmarshal_DNSZones\<close>, \<open>Unmarshal_APIStatus\<close>:
    \<open>json.Unmarshal\<close> into a \<open>[]DNSRecord\<close>, a \<open>[]DNSZone\<close> and an \<open>APIStatus\<close>;
  \<^item> \<open>fmt_directive\<close>: what \<open>fmt\<close> prints, with no operands, for format text that begins
    right after a \<open>%\<close> with a flag, a width, a precision, an argument index or a
    non-ASCII verb (see \<open>doPrintf\<close>);
  \<^item> \<open>tabwriter_Flush\<close>: the bytes a \<open>tabwriter.Writer\<close> writes to standard output
    for the text it was given, and the error of \<open>Flush\<close>.
\<close>

record 'u platform =
  url_Parse :: "string \<Rightarrow> liberr + 'u"
  JoinPath :: "'u \<Rightarrow> string list \<Rightarrow> 'u"
  URL_String :: "'u \<Rightarrow> string"
  NewRequest_err :: "string \<Rightarrow> string \<Rightarrow> liberr option"
  GenerateCode :: "string \<Rightarrow> nat \<Rightarrow> liberr + string"
  Now :: "http_call list \<Rightarrow> nat"
  Do :: "http_call list \<Rightarrow> Request \<Rightarrow> Response option \<times> liberr option"
  gjson_Get :: "string \<Rightarrow> string \<Rightarrow> string"
  Unmarshal_DNSRecords :: "string \<Rightarrow> liberr + DNSRecord list"
  Unmarshal_DNSZones :: "string \<Rightarrow> liberr + string list"
  Unmarshal_APIStatus :: "string \<Rightarrow> liberr + APIStatus"
  fmt_directive :: "string \<Rightarrow> string"
  tabwriter_Flush :: "string \<Rightarrow> string \<times> liberr option"

text \<open>
  The process state: the package variable \<open>apikey\<close>, the log of HTTP calls made, and
  the bytes written to standard output and standard error.
\<close>

record world =
  apikey :: string
  sent :: "http_call list"
  stdout :: string
  stderr :: string

subsection \<open>Standard-library functions modelled in full\<close>

text \<open>\<open>strings.Contains(s, substr)\<close>.\<close>

fun Contains :: "string \<Rightarrow> string \<Rightarrow> bool" where
  "Contains [] substr = (substr = [])"
| "Contains (c # cs) substr =
     (take (length substr) (c # cs) = substr \<or> Contains cs substr)"

text \<open>\<open>strings.Join(elems, sep)\<close>.\<close>

fun Join :: "string list \<Rightarrow> string \<Rightarrow> string" where
  "Join [] sep = []"
| "Join [e] sep = e"
| "Join (e # e' # es) sep = e @ sep @ Join (e' # es) sep"

text \<open>\<open>base64.StdEncoding.EncodeToString\<close>: three bytes become four characters of the
  standard alphabet; a last group of one or two bytes is padded with \<open>=\<close>.\<close>

definition encodeStd :: string where
  "encodeStd = ''ABCDEFGHIJKLMNOPQRSTUVWXYZabcdefghijklmnopqrstuvwxyz0123456789+/''"

definition sextet :: "nat \<Rightarrow> char" where
  "sextet n = encodeStd ! (n mod 64)"

fun EncodeToString :: "string \<Rightarrow> string" where
  "EncodeToString [] = []"
| "EncodeToString [a] =
     (let n = of_char a * 65536 in
      [sextet (n div 262144), sextet (n div 4096), CHR ''='', CHR ''=''])"
| "EncodeToString [a, b] =
     (let n = of_char a * 65536 + of_char b * 256 in
      [sextet (n div 262144), sextet (n div 4096), sextet (n div 64), CHR ''=''])"
| "EncodeToString (a # b # c # rest) =
     (let n = of_char a * 65536 + of_char b * 256 + of_char c in
      [sextet (n div 262144), sextet (n div 4096), sextet (n div 64), sextet n])
     @ EncodeToString rest"

text \<open>
  \<open>fmt\<close>'s \<open>doPrintf\<close> for a format string with no operands, which is what
  \<open>fmt.Errorf(s)\<close> and \<open>fmt.Printf(s)\<close> run when \<open>s\<close> is their only argument. Text
  outside directives is copied. \<open>%%\<close> prints one \<open>%\<close>; a \<open>%\<close> that ends the string
  prints \<open>%!(NOVERB)\<close>; a \<open>%\<close> followed at once by an ASCII verb character finds no
  operand and prints \<open>%!v(MISSING)\<close> for the verb \<open>v\<close>. Directives with flags, width,
  precision, argument index or a non-ASCII verb are left to the platform.
\<close>

definition plain_verb :: "char \<Rightarrow> bool" where
  "plain_verb v = (v \<notin> set ''#0+- [123456789*.%'' \<and> (of_char v :: nat) < 128)"

fun doPrintf :: "'u platform \<Rightarrow> string \<Rightarrow> string" where
  "doPrintf P [] = []"
| "doPrintf P (c # cs) =
     (if c \<noteq> CHR ''%'' then c # doPrintf P cs
      else (case cs of
              [] \<Rightarrow> ''%!(NOVERB)''
            | v # rest \<Rightarrow>
                if v = CHR ''%'' then CHR ''%'' # doPrintf P rest
                else if plain_verb v then ''%!'' @ [v] @ ''(MISSING)'' @ doPrintf P rest
                else fmt_directive P (v # rest)))"

text \<open>\<open>fmt.Errorf(format)\<close> with the format as its only argument.\<close>

definition Errorf :: "'u platform \<Rightarrow> string \<Rightarrow> error" where
  "Errorf P format = errorString (doPrintf P format)"

text \<open>\<open>fmt.Println(s)\<close> on standard output.\<close>

definition Println :: "string \<Rightarrow> world \<Rightarrow> world" where
  "Println line s = s\<lparr>stdout := stdout s @ line @ [CHR 0x0A]\<rparr>"

text \<open>\<open>http.NewRequestWithContext(ctx, method, url, body)\<close>.\<close>

definition NewRequestWithContext ::
  "'u platform \<Rightarrow> string \<Rightarrow> string \<Rightarrow> string option \<Rightarrow> error + Request" where
  "NewRequestWithContext P method url body =
     (case NewRequest_err P method url of
        Some err \<Rightarrow> Inl (External err)
      | None \<Rightarrow> Inr \<lparr>Method = method, URL = url, Headers = [], Body = body\<rparr>)"

section \<open>The client library (package gomiabdns)\<close>

text \<open>The \<open>Client\<close> struct; \<open>ApiUrl\<close> is the non-nil URL that \<open>New\<close> stores.\<close>

record 'u Client =
  ApiUrl :: 'u
  email :: string
  password :: string
  totp_secret :: string

text \<open>\<open>New\<close> panics with the error of \<open>url.Parse\<close>.\<close>

definition New ::
  "'u platform \<Rightarrow> string \<Rightarrow> string \<Rightarrow> string \<Rightarrow> string \<Rightarrow> 'u Client outcome" where
  "New P apiUrl em pw secret =
     (case url_Parse P apiUrl of
        Inl err \<Rightarrow> Panic (PanicError (External err))
      | Inr parsedUrl \<Rightarrow>
          Return \<lparr>ApiUrl = parsedUrl, email = em, password = pw, totp_secret = secret\<rparr>)"

text \<open>
  \<open>doLogin\<close>. The request is built, and can be refused, before the cached key is
  looked at. \<open>defer resp.Body.Close()\<close> stands before the test of \<open>err\<close>: it reads
  the field \<open>Body\<close> of \<open>resp\<close> when the statement runs, so a nil \<open>resp\<close> is a nil
  pointer dereference there.
\<close>

definition doLogin :: "'u platform \<Rightarrow> 'u Client \<Rightarrow> world \<Rightarrow> error option outcome \<times> world" where
  "doLogin P c s =
     (let requestURL = URL_String P (JoinPath P (ApiUrl c) [''login'']) in
      case NewRequestWithContext P ''POST'' requestURL None of
        Inl err \<Rightarrow> (Return (Some err), s)
      | Inr req0 \<Rightarrow>
         (let req1 = req0\<lparr>Headers := Header_Set ''Accept'' ''JSON'' (Headers req0)\<rparr> in
          if apikey s \<noteq> [] then (Return None, s)
          else
           (let req2 = req1\<lparr>Headers := Header_Add ''Authorization''
                         (''Basic '' @ EncodeToString (email c @ '':'' @ password c))
                         (Headers req1)\<rparr>;
                withToken =
                  (if totp_secret c \<noteq> [] then
                     (case GenerateCode P (totp_secret c) (Now P (sent s)) of
                        Inl err \<Rightarrow>
                          Inl (Errorf P (''Error generating TOTP token: ''
                                           @ Error (External err)))
                      | Inr token \<Rightarrow>
                          Inr (req2\<lparr>Headers := Header_Add ''x-auth-token'' token (Headers req2)\<rparr>))
                   else Inr req2)
            in
            (case withToken of
               Inl err \<Rightarrow> (Return (Some err), s)
             | Inr req \<Rightarrow>
                (let s1 = s\<lparr>sent := sent s @ [LoginCall req]\<rparr> in
                 (case Do P (sent s) req of
                    (None, err) \<Rightarrow> (Panic NilDereference, s1)
                  | (Some resp, Some err) \<Rightarrow> (Return (Some (External err)), s1)
                  | (Some resp, None) \<Rightarrow>
                     (case RespBody resp of
                        Inl err \<Rightarrow> (Return (Some (External err)), s1)
                      | Inr bodystr \<Rightarrow>
                         (let status = gjson_Get P bodystr ''status'' in
                          if status = ''ok'' then
                           (let privileges = gjson_Get P bodystr ''privileges'' in
                            if \<not> Contains privileges ''admin'' then
                              (Return (Some (Errorf P ''Account does not have admin priveleges'')), s1)
                            else
                              (Return None, s1\<lparr>apikey := gjson_Get P bodystr ''api_key''\<rparr>))
                          else if status = ''invalid'' then
                           (Return (Some (Errorf P (''Invalid response: ''
                                     @ gjson_Get P bodystr ''reason''))),
                            s1\<lparr>apikey := []\<rparr>)
                          else
                           (Return (Some (Errorf P (''Unforeseen return value: '' @ status))),
                            s1\<lparr>apikey := []\<rparr>)))))))))"

text \<open>
  \<open>doRequest\<close>: log in, give up if no key is cached, then send the request with the
  cached key. The same \<open>defer resp.Body.Close()\<close> stands before the test of \<open>err\<close>.
\<close>

definition doRequest ::
  "'u platform \<Rightarrow> 'u Client \<Rightarrow> string \<Rightarrow> string \<Rightarrow> string \<Rightarrow> world
     \<Rightarrow> (error + string) outcome \<times> world" where
  "doRequest P c method requestURL val s =
     (let r = (if val \<noteq> [] then Some val else None) in
      case doLogin P c s of
        (Panic p, s1) \<Rightarrow> (Panic p, s1)
      | (Return (Some err), s1) \<Rightarrow>
          (Return (Inl (Errorf P (''Could not login: '' @ Error err))), s1)
      | (Return None, s1) \<Rightarrow>
         (if apikey s1 = [] then (Return (Inl (Errorf P ''Could not login'')), s1)
          else
            (case NewRequestWithContext P method requestURL r of
               Inl err \<Rightarrow> (Return (Inl err), s1)
             | Inr req0 \<Rightarrow>
                (let req1 = req0\<lparr>Headers := Header_Set ''Accept'' ''json'' (Headers req0)\<rparr>;
                     req = req1\<lparr>Headers := Header_Add ''Authorization''
                             (''Basic '' @ EncodeToString (email c @ '':'' @ apikey s1))
                             (Headers req1)\<rparr>;
                     s2 = s1\<lparr>sent := sent s1 @ [ApiCall req]\<rparr>
                 in
                 (case Do P (sent s1) req of
                    (None, err) \<Rightarrow> (Panic NilDereference, s2)
                  | (Some resp, Some err) \<Rightarrow> (Return (Inl (External err)), s2)
                  | (Some resp, None) \<Rightarrow>
                     (case RespBody resp of
                        Inl err \<Rightarrow> (Return (Inl (External err)), s2)
                      | Inr body \<Rightarrow> (Return (Inr body), s2)))))))"

text \<open>\<open>getApiWithPath\<close>; a \<open>RecordType\<close> is a string.\<close>

definition getApiWithPath :: "'u platform \<Rightarrow> 'u \<Rightarrow> string \<Rightarrow> string \<Rightarrow> 'u" where
  "getApiWithPath P apiUrl name rtype =
     (let apiUrl' = JoinPath P apiUrl [''dns'', ''custom''] in
      if name \<noteq> [] then
        (if rtype \<noteq> [] then JoinPath P apiUrl' [name, rtype]
         else JoinPath P apiUrl' [name])
      else apiUrl')"

text \<open>\<open>unmarshalRecords\<close> and \<open>unmarshalZones\<close>.\<close>

definition unmarshalRecords :: "'u platform \<Rightarrow> string \<Rightarrow> error + DNSRecord list" where
  "unmarshalRecords P data =
     (case Unmarshal_DNSRecords P data of
        Inl err \<Rightarrow>
          (case Unmarshal_APIStatus P data of
             Inl err2 \<Rightarrow> Inl (External err)
           | Inr errorResult \<Rightarrow>
               Inl (Errorf P (''Error while decoding json: '' @ Reason errorResult)))
      | Inr result \<Rightarrow> Inr result)"

definition unmarshalZones :: "'u platform \<Rightarrow> string \<Rightarrow> error + string list" where
  "unmarshalZones P data =
     (case Unmarshal_DNSZones P data of
        Inl err \<Rightarrow>
          (case Unmarshal_APIStatus P data of
             Inl err2 \<Rightarrow> Inl (External err)
           | Inr errorResult \<Rightarrow>
               Inl (Errorf P (''Error while decoding json: '' @ Reason errorResult)))
      | Inr result \<Rightarrow> Inr result)"

subsection \<open>The public operations\<close>

definition GetHosts ::
  "'u platform \<Rightarrow> 'u Client \<Rightarrow> string \<Rightarrow> string \<Rightarrow> world
     \<Rightarrow> (error + DNSRecord list) outcome \<times> world" where
  "GetHosts P c name recordType s =
     (let apiUrl = getApiWithPath P (ApiUrl c) name recordType in
      case doRequest P c ''GET'' (URL_String P apiUrl) [] s of
        (Panic p, s1) \<Rightarrow> (Panic p, s1)
      | (Return (Inl err), s1) \<Rightarrow> (Return (Inl err), s1)
      | (Return (Inr apiResp), s1) \<Rightarrow> (Return (unmarshalRecords P apiResp), s1))"

text \<open>
  The message of the parameter check is a constant format with three \<open>%s\<close> verbs and
  three string operands, each printed as it is.
\<close>

definition AddHost ::
  "'u platform \<Rightarrow> 'u Client \<Rightarrow> string \<Rightarrow> string \<Rightarrow> string \<Rightarrow> world
     \<Rightarrow> error option outcome \<times> world" where
  "AddHost P c name recordType val s =
     (if name = [] \<or> recordType = [] \<or> val = [] then
        (Return (Some (errorString
           (''Missing parameters to AddHost. all are required. name: '' @ name
            @ '', recordType: '' @ recordType @ '', value: '' @ val @ '' ''))), s)
      else
        (let apiUrl = getApiWithPath P (ApiUrl c) name recordType in
         case doRequest P c ''POST'' (URL_String P apiUrl) val s of
           (Panic p, s1) \<Rightarrow> (Panic p, s1)
         | (Return (Inl err), s1) \<Rightarrow> (Return (Some err), s1)
         | (Return (Inr apiResp), s1) \<Rightarrow> (Return None, Println apiResp s1)))"

definition UpdateHost ::
  "'u platform \<Rightarrow> 'u Client \<Rightarrow> string \<Rightarrow> string \<Rightarrow> string \<Rightarrow> world
     \<Rightarrow> error option outcome \<times> world" where
  "UpdateHost P c name recordType val s =
     (if name = [] \<or> recordType = [] \<or> val = [] then
        (Return (Some (errorString
           (''Missing parameters to UpdateHost. all are required. name: '' @ name
            @ '', recordType: '' @ recordType @ '', value: '' @ val @ '' ''))), s)
      else
        (let apiUrl = getApiWithPath P (ApiUrl c) name recordType in
         case doRequest P c ''PUT'' (URL_String P apiUrl) val s of
           (Panic p, s1) \<Rightarrow> (Panic p, s1)
         | (Return (Inl err), s1) \<Rightarrow> (Return (Some err), s1)
         | (Return (Inr apiResp), s1) \<Rightarrow> (Return None, Println apiResp s1)))"

definition DeleteHost ::
  "'u platform \<Rightarrow> 'u Client \<Rightarrow> string \<Rightarrow> string \<Rightarrow> string \<Rightarrow> world
     \<Rightarrow> error option outcome \<times> world" where
  "DeleteHost P c name recordType val s =
     (if name = [] then
        (Return (Some (errorString
           (''Missing parameter to DeleteHost. Name is required. name: '' @ name))), s)
      else
        (let apiUrl = getApiWithPath P (ApiUrl c) name recordType in
         case doRequest P c ''DELETE'' (URL_String P apiUrl) val s of
           (Panic p, s1) \<Rightarrow> (Panic p, s1)
         | (Return (Inl err), s1) \<Rightarrow> (Return (Some err), s1)
         | (Return (Inr apiResp), s1) \<Rightarrow> (Return None, Println apiResp s1)))"

definition GetZones ::
  "'u platform \<Rightarrow> 'u Client \<Rightarrow> world \<Rightarrow> (error + string list) outcome \<times> world" where
  "GetZones P c s =
     (let apiUrl = JoinPath P (ApiUrl c) [''dns'', ''zones''] in
      case doRequest P c ''GET'' (URL_String P apiUrl) [] s of
        (Panic p, s1) \<Rightarrow> (Panic p, s1)
      | (Return (Inl err), s1) \<Rightarrow> (Return (Inl err), s1)
      | (Return (Inr apiResp), s1) \<Rightarrow> (Return (unmarshalZones P apiResp), s1))"

definition GetZonefile ::
  "'u platform \<Rightarrow> 'u Client \<Rightarrow> string \<Rightarrow> world \<Rightarrow> (error + string) outcome \<times> world" where
  "GetZonefile P c zone s =
     (let apiUrl = JoinPath P (ApiUrl c) [''dns'', ''zonefile'', zone] in
      case doRequest P c ''GET'' (URL_String P apiUrl) [] s of
        (Panic p, s1) \<Rightarrow> (Panic p, s1)
      | (Return (Inl err), s1) \<Rightarrow> (Return (Inl err), s1)
      | (Return (Inr apiResp), s1) \<Rightarrow> (Return (Inr apiResp), s1))"

subsection \<open>Calls of the public operations, one after another\<close>

text \<open>
  A call of one of the six public operations with its arguments, and the state it
  leaves. \<open>perform_all\<close> runs calls, each on a client of its own choice, in order; the
  state survives a returned error, and a panic too (a caller may recover from it).
\<close>

datatype call =
    GetHostsCall string string
  | AddHostCall string string string
  | UpdateHostCall string string string
  | DeleteHostCall string string string
  | GetZonesCall
  | GetZonefileCall string

fun perform :: "'u platform \<Rightarrow> 'u Client \<Rightarrow> call \<Rightarrow> world \<Rightarrow> world" where
  "perform P c (GetHostsCall name rtype) s = snd (GetHosts P c name rtype s)"
| "perform P c (AddHostCall name rtype val) s = snd (AddHost P c name rtype val s)"
| "perform P c (UpdateHostCall name rtype val) s = snd (UpdateHost P c name rtype val s)"
| "perform P c (DeleteHostCall name rtype val) s = snd (DeleteHost P c name rtype val s)"
| "perform P c GetZonesCall s = snd (GetZones P c s)"
| "perform P c (GetZonefileCall zone) s = snd (GetZonefile P c zone s)"

fun perform_all :: "'u platform \<Rightarrow> ('u Client \<times> call) list \<Rightarrow> world \<Rightarrow> world" where
  "perform_all P [] s = s"
| "perform_all P ((c, k) # ks) s = perform_all P ks (perform P c k s)"

text \<open>Whether the arguments of a call pass the operation's own parameter check.\<close>

fun checked :: "call \<Rightarrow> bool" where
  "checked (GetHostsCall name rtype) = True"
| "checked (AddHostCall name rtype val) = (name \<noteq> [] \<and> rtype \<noteq> [] \<and> val \<noteq> [])"
| "checked (UpdateHostCall name rtype val) = (name \<noteq> [] \<and> rtype \<noteq> [] \<and> val \<noteq> [])"
| "checked (DeleteHostCall name rtype val) = (name \<noteq> [])"
| "checked GetZonesCall = True"
| "checked (GetZonefileCall zone) = True"

text \<open>The calls of the log made by \<open>doLogin\<close>.\<close>

definition login_calls :: "http_call list \<Rightarrow> http_call list" where
  "login_calls log = filter is_login log"

section \<open>The command-line tool (cmd/miabdns)\<close>

text \<open>The package variables that \<open>flag.Parse\<close> fills in \<open>init\<close>.\<close>

record flags =
  flag_email :: string
  flag_password :: string
  flag_url :: string
  flag_totp :: string
  flag_command :: string
  flag_rtype :: string
  flag_rname :: string
  flag_rvalue :: string
  flag_zone :: string

definition commands :: "string list" where
  "commands = [''list'', ''add'', ''update'', ''delete'', ''zones'', ''zonefile'']"

definition getRecords ::
  "'u platform \<Rightarrow> flags \<Rightarrow> 'u Client \<Rightarrow> world \<Rightarrow> (error + DNSRecord list) outcome \<times> world" where
  "getRecords P fl c s =
     (case GetHosts P c (flag_rname fl) (flag_rtype fl) s of
        (Panic p, s1) \<Rightarrow> (Panic p, s1)
      | (Return (Inl err), s1) \<Rightarrow> (Return (Inl err), s1)
      | (Return (Inr records), s1) \<Rightarrow> (Return (Inr records), s1))"

definition addRecord ::
  "'u platform \<Rightarrow> flags \<Rightarrow> 'u Client \<Rightarrow> world \<Rightarrow> error option outcome \<times> world" where
  "addRecord P fl c s =
     (if flag_rname fl = [] \<or> flag_rtype fl = [] \<or> flag_rvalue fl = [] then
        (Return (Some (errorString
           (''Missing parameters to add command. all are required. rname: '' @ flag_rname fl
            @ '', rtype: '' @ flag_rtype fl @ '', rvalue: '' @ flag_rvalue fl @ '' ''))), s)
      else
        (case AddHost P c (flag_rname fl) (flag_rtype fl) (flag_rvalue fl) s of
           (Panic p, s1) \<Rightarrow> (Panic p, s1)
         | (Return (Some err), s1) \<Rightarrow> (Return (Some err), s1)
         | (Return None, s1) \<Rightarrow> (Return None, s1)))"

definition updateRecord ::
  "'u platform \<Rightarrow> flags \<Rightarrow> 'u Client \<Rightarrow> world \<Rightarrow> error option outcome \<times> world" where
  "updateRecord P fl c s =
     (if flag_rname fl = [] \<or> flag_rtype fl = [] \<or> flag_rvalue fl = [] then
        (Return (Some (errorString
           (''Missing parameters to update command. all are required. rname: '' @ flag_rname fl
            @ '', rtype: '' @ flag_rtype fl @ '', rvalue: '' @ flag_rvalue fl @ '' ''))), s)
      else
        (case UpdateHost P c (flag_rname fl) (flag_rtype fl) (flag_rvalue fl) s of
           (Panic p, s1) \<Rightarrow> (Panic p, s1)
         | (Return (Some err), s1) \<Rightarrow> (Return (Some err), s1)
         | (Return None, s1) \<Rightarrow> (Return None, s1)))"

definition deleteRecord ::
  "'u platform \<Rightarrow> flags \<Rightarrow> 'u Client \<Rightarrow> world \<Rightarrow> error option outcome \<times> world" where
  "deleteRecord P fl c s =
     (if flag_rname fl = [] \<or> flag_rtype fl = [] then
        (Return (Some (Errorf P
           ''Missing parameters to delete command. rname and rtype are required.'')), s)
      else
        (case DeleteHost P c (flag_rname fl) (flag_rtype fl) (flag_rvalue fl) s of
           (Panic p, s1) \<Rightarrow> (Panic p, s1)
         | (Return (Some err), s1) \<Rightarrow> (Return (Some err), s1)
         | (Return None, s1) \<Rightarrow> (Return None, s1)))"

text \<open>
  \<open>printRecords\<close> writes a header line and one line per record through a
  \<open>tabwriter.Writer\<close> on standard output, and reports the error of \<open>Flush\<close> there too.
\<close>

definition printRecords :: "'u platform \<Rightarrow> DNSRecord list \<Rightarrow> world \<Rightarrow> world" where
  "printRecords P records s =
     (let tab = CHR 0x09; nl = CHR 0x0A;
          written = ''Name'' @ [tab] @ '' Type'' @ [tab] @ '' Value'' @ [nl]
            @ concat (map (\<lambda>dr. QualifiedName dr @ [tab] @ '' '' @ RecordType dr
                                 @ [tab] @ '' '' @ Value dr @ [nl]) records)
      in case tabwriter_Flush P written of
           (out, None) \<Rightarrow> s\<lparr>stdout := stdout s @ out\<rparr>
         | (out, Some err) \<Rightarrow>
             s\<lparr>stdout := stdout s @ out @ ''error flushing tab writer ''
                              @ Error (External err) @ [nl]\<rparr>)"

definition getZones ::
  "'u platform \<Rightarrow> 'u Client \<Rightarrow> world \<Rightarrow> (error + string list) outcome \<times> world" where
  "getZones P c s =
     (case GetZones P c s of
        (Panic p, s1) \<Rightarrow> (Panic p, s1)
      | (Return (Inl err), s1) \<Rightarrow> (Return (Inl err), s1)
      | (Return (Inr records), s1) \<Rightarrow> (Return (Inr records), s1))"

fun printZones :: "string list \<Rightarrow> world \<Rightarrow> world" where
  "printZones [] s = s"
| "printZones (dz # zones) s = printZones zones (Println (''Zone: '' @ dz) s)"

definition getZonefile ::
  "'u platform \<Rightarrow> 'u Client \<Rightarrow> string \<Rightarrow> world \<Rightarrow> (error + string) outcome \<times> world" where
  "getZonefile P c zone s =
     (case GetZonefile P c zone s of
        (Panic p, s1) \<Rightarrow> (Panic p, s1)
      | (Return (Inl err), s1) \<Rightarrow> (Return (Inl err), s1)
      | (Return (Inr zonefile), s1) \<Rightarrow> (Return (Inr zonefile), s1))"

text \<open>\<open>printZonefile\<close> passes the zone file to \<open>fmt.Printf\<close> as the format.\<close>

definition printZonefile :: "'u platform \<Rightarrow> string \<Rightarrow> string \<Rightarrow> world \<Rightarrow> world" where
  "printZonefile P zonefile zone s =
     (let s1 = Println (''Zonefile for zone: '' @ zone) s in
      s1\<lparr>stdout := stdout s1 @ doPrintf P zonefile\<rparr>)"

text \<open>
  \<open>main\<close>, run on the parsed flags. An error of an operation is passed to \<open>panic\<close>.
\<close>

definition main :: "'u platform \<Rightarrow> flags \<Rightarrow> world \<Rightarrow> unit outcome \<times> world" where
  "main P fl s =
     (let command = (if flag_command fl = [] then ''list'' else flag_command fl) in
      if command \<notin> set commands then
        (Return (),
         Println (''The command argument must be a valid command: '' @ Join commands '','') s)
      else
        (case New P (flag_url fl) (flag_email fl) (flag_password fl) (flag_totp fl) of
           Panic p \<Rightarrow> (Panic p, s)
         | Return c \<Rightarrow>
            (if command = ''list'' then
               (case getRecords P fl c s of
                  (Panic p, s1) \<Rightarrow> (Panic p, s1)
                | (Return (Inl err), s1) \<Rightarrow> (Panic (PanicError err), s1)
                | (Return (Inr records), s1) \<Rightarrow> (Return (), printRecords P records s1))
             else if command = ''add'' then
               (case addRecord P fl c s of
                  (Panic p, s1) \<Rightarrow> (Panic p, s1)
                | (Return (Some err), s1) \<Rightarrow> (Panic (PanicError err), s1)
                | (Return None, s1) \<Rightarrow> (Return (), Println ''record added'' s1))
             else if command = ''update'' then
               (case updateRecord P fl c s of
                  (Panic p, s1) \<Rightarrow> (Panic p, s1)
                | (Return (Some err), s1) \<Rightarrow> (Panic (PanicError err), s1)
                | (Return None, s1) \<Rightarrow> (Return (), Println ''record updated'' s1))
             else if command = ''delete'' then
               (case deleteRecord P fl c s of
                  (Panic p, s1) \<Rightarrow> (Panic p, s1)
                | (Return (Some err), s1) \<Rightarrow> (Panic (PanicError err), s1)
                | (Return None, s1) \<Rightarrow> (Return (), Println ''record deleted'' s1))
             else if command = ''zones'' then
               (case getZones P c s of
                  (Panic p, s1) \<Rightarrow> (Panic p, s1)
                | (Return (Inl err), s1) \<Rightarrow> (Panic (PanicError err), s1)
                | (Return (Inr zones), s1) \<Rightarrow> (Return (), printZones zones s1))
             else if command = ''zonefile'' then
               (if flag_zone fl = [] then
                  (Panic (PanicError (Errorf P
                     ''Zone for which to retrieve the zonefile must be provided'')), s)
                else
                  (case getZonefile P c (flag_zone fl) s of
                     (Panic p, s1) \<Rightarrow> (Panic p, s1)
                   | (Return (Inl err), s1) \<Rightarrow> (Panic (PanicError err), s1)
                   | (Return (Inr zonefile), s1) \<Rightarrow>
                       (Return (), printZonefile P zonefile (flag_zone fl) s1)))
             else (Return (), s))))"

text \<open>
  The exit status of the process: 0 when \<open>main\<close> returns, 2 when the Go run time
  ends the process on a panic (it then reports the panic on standard error itself).
\<close>

fun exit_status :: "unit outcome \<Rightarrow> nat" where
  "exit_status (Return u) = 0"
| "exit_status (Panic p) = 2"

section \<open>A test double of the platform\<close>

text \<open>
  A small concrete platform on which the operations can be run. URLs are strings and
  \<open>JoinPath\<close> appends \<open>/elem\<close> for each element. The server answers the login URL of
  \<open>https://box.example.com/admin\<close> with \<open>loginReply\<close> and every other URL with
  \<open>apiReply\<close>. The bodies it knows are listed with what the JSON functions find in
  them (they are written here without the double quotes of JSON).
\<close>

definition body_ok :: string where
  "body_ok = ''{status:ok,privileges:[admin],api_key:KEY1}''"

definition body_user :: string where
  "body_user = ''{status:ok,privileges:[],api_key:KEY2}''"

definition body_invalid :: string where
  "body_invalid = ''{status:invalid,reason:bad session}''"

definition body_percent :: string where
  "body_percent = ''{status:invalid,reason:50%d wrong}''"

definition body_records :: string where
  "body_records = ''[{qname:h.example.com,rtype:A,value:1.2.3.4,zone:example.com}]''"

definition body_zones :: string where
  "body_zones = ''[example.com]''"

definition stub_gjson :: "string \<Rightarrow> string \<Rightarrow> string" where
  "stub_gjson body path =
     (case map_of
        [((body_ok, ''status''), ''ok''),
         ((body_ok, ''privileges''), ''[admin]''),
         ((body_ok, ''api_key''), ''KEY1''),
         ((body_user, ''status''), ''ok''),
         ((body_user, ''privileges''), ''[]''),
         ((body_user, ''api_key''), ''KEY2''),
         ((body_invalid, ''status''), ''invalid''),
         ((body_invalid, ''reason''), ''bad session''),
         ((body_percent, ''status''), ''invalid''),
         ((body_percent, ''reason''), ''50%d wrong'')] (body, path) of
        Some v \<Rightarrow> v
      | None \<Rightarrow> [])"

definition stub_records :: "string \<Rightarrow> liberr + DNSRecord list" where
  "stub_records body =
     (if body = body_records then
        Inr [\<lparr>QualifiedName = ''h.example.com'', RecordType = ''A'',
              SortOrder = \<lparr>ByCreated = 0, ByName = 0\<rparr>,
              Value = ''1.2.3.4'', Zone = ''example.com''\<rparr>]
      else Inl ''json: cannot unmarshal object into Go value of type []gomiabdns.DNSRecord'')"

definition stub_status :: "string \<Rightarrow> liberr + APIStatus" where
  "stub_status body =
     (if body = body_invalid then Inr \<lparr>Status = ''invalid'', Reason = ''bad session''\<rparr>
      else if body = body_percent then Inr \<lparr>Status = ''invalid'', Reason = ''50%d wrong''\<rparr>
      else Inl ''invalid character'')"

definition stub ::
  "Response option \<times> liberr option \<Rightarrow> Response option \<times> liberr option \<Rightarrow> string platform" where
  "stub loginReply apiReply =
     \<lparr>url_Parse = Inr,
      JoinPath = (\<lambda>u elems. u @ concat (map (\<lambda>e. CHR ''/'' # e) elems)),
      URL_String = (\<lambda>u. u),
      NewRequest_err = (\<lambda>method url. None),
      GenerateCode = (\<lambda>secret t. Inr ''123456''),
      Now = length,
      Do = (\<lambda>log req. if URL req = ''https://box.example.com/admin/login''
                        then loginReply else apiReply),
      gjson_Get = stub_gjson,
      Unmarshal_DNSRecords = stub_records,
      Unmarshal_DNSZones = (\<lambda>body. if body = body_zones then Inr [''example.com'']
                                  else Inl ''invalid character''),
      Unmarshal_APIStatus = stub_status,
      fmt_directive = (\<lambda>rest. []),
      tabwriter_Flush = (\<lambda>written. (written, None))\<rparr>"

definition replies :: "string \<Rightarrow> Response option \<times> liberr option" where
  "replies body = (Some \<lparr>RespBody = Inr body\<rparr>, None)"

definition unreachable :: "Response option \<times> liberr option" where
  "unreachable = (None, Some ''dial tcp: connection refused'')"

definition admin :: "string Client" where
  "admin = \<lparr>ApiUrl = ''https://box.example.com/admin'', email = ''me@example.com'',
            password = ''hunter2'', totp_secret = []\<rparr>"

definition fresh :: world where
  "fresh = \<lparr>apikey = [], sent = [], stdout = [], stderr = []\<rparr>"

definition flags_for :: "string \<Rightarrow> flags" where
  "flags_for cmd =
     \<lparr>flag_email = ''me@example.com'', flag_password = ''hunter2'',
      flag_url = ''https://box.example.com/admin'', flag_totp = [], flag_command = cmd,
      flag_rtype = [], flag_rname = [], flag_rvalue = [], flag_zone = []\<rparr>"

section \<open>The two stages of \<open>doLogin\<close>\<close>

text \<open>
  For the proofs, the part of \<open>doLogin\<close> that completes the request once no key is
  cached (the \<open>Authorization\<close> header and the TOTP token) and the part that reads the
  reply of \<open>Do\<close> are named. They restate the source text of \<open>doLogin\<close>;
  \<open>doLogin_decompose\<close> below proves that \<open>doLogin\<close> is their composition.
\<close>

definition buildLogin :: "'u platform \<Rightarrow> 'u Client \<Rightarrow> world \<Rightarrow> error + Request" where
  "buildLogin P c s =
     (let req2 = \<lparr>Method = ''POST'', URL = URL_String P (JoinPath P (ApiUrl c) [''login'']),
                  Headers = [(''Accept'', [''JSON'']),
                             (''Authorization'',
                              [''Basic '' @ EncodeToString (email c @ '':'' @ password c)])],
                  Body = None\<rparr>
      in if totp_secret c \<noteq> [] then
           (case GenerateCode P (totp_secret c) (Now P (sent s)) of
              Inl err \<Rightarrow> Inl (Errorf P (''Error generating TOTP token: '' @ err))
            | Inr token \<Rightarrow> Inr (req2\<lparr>Headers := Headers req2 @ [(''x-auth-token'', [token])]\<rparr>))
         else Inr req2)"

definition readLogin ::
  "'u platform \<Rightarrow> Response option \<times> liberr option \<Rightarrow> world \<Rightarrow> error option outcome \<times> world" where
  "readLogin P reply s1 =
     (case reply of
        (None, err) \<Rightarrow> (Panic NilDereference, s1)
      | (Some resp, Some err) \<Rightarrow> (Return (Some (External err)), s1)
      | (Some resp, None) \<Rightarrow>
         (case RespBody resp of
            Inl err \<Rightarrow> (Return (Some (External err)), s1)
          | Inr bodystr \<Rightarrow>
             (if gjson_Get P bodystr ''status'' = ''ok'' then
                (if \<not> Contains (gjson_Get P bodystr ''privileges'') ''admin'' then
                   (Return (Some (Errorf P ''Account does not have admin priveleges'')), s1)
                 else (Return None, s1\<lparr>apikey := gjson_Get P bodystr ''api_key''\<rparr>))
              else if gjson_Get P bodystr ''status'' = ''invalid'' then
                (Return (Some (Errorf P (''Invalid response: '' @ gjson_Get P bodystr ''reason''))),
                 s1\<lparr>apikey := []\<rparr>)
              else
                (Return (Some (Errorf P (''Unforeseen return value: ''
                                          @ gjson_Get P bodystr ''status''))),
                 s1\<lparr>apikey := []\<rparr>))))"

section \<open>Properties of \<open>doLogin\<close> and \<open>doRequest\<close>\<close>

text \<open>\<open>doLogin\<close> is the request check, the test of the cached key, and the two stages.\<close>

lemma doLogin_decompose:
  "doLogin P c s =
     (case NewRequest_err P ''POST'' (URL_String P (JoinPath P (ApiUrl c) [''login''])) of
        Some e \<Rightarrow> (Return (Some (External e)), s)
      | None \<Rightarrow>
          if apikey s \<noteq> [] then (Return None, s)
          else (case buildLogin P c s of
                  Inl err \<Rightarrow> (Return (Some err), s)
                | Inr req \<Rightarrow>
                    readLogin P (Do P (sent s) req) (s\<lparr>sent := sent s @ [LoginCall req]\<rparr>)))"
  by (cases "NewRequest_err P ''POST'' (URL_String P (JoinPath P (ApiUrl c) [''login'']))";
      cases "apikey s = []"; cases "totp_secret c = []";
      cases "GenerateCode P (totp_secret c) (Now P (sent s))")
     (simp_all add: doLogin_def buildLogin_def readLogin_def NewRequestWithContext_def Let_def
        cong del: option.case_cong_weak sum.case_cong_weak prod.case_cong_weak if_weak_cong)

text \<open>Reading the reply changes neither the log nor the output streams.\<close>

lemma readLogin_fields:
  "sent (snd (readLogin P reply s1)) = sent s1"
  "stdout (snd (readLogin P reply s1)) = stdout s1"
  "stderr (snd (readLogin P reply s1)) = stderr s1"
  by (simp_all add: readLogin_def split: prod.splits option.splits sum.splits)

text \<open>
  \<open>doLogin\<close> either leaves the state as it is, or finds no cached key, sends one
  request and reads the reply.
\<close>

lemma doLogin_untouched:
  "snd (doLogin P c s) = s \<or>
   (apikey s = [] \<and> (\<exists>req. buildLogin P c s = Inr req \<and>
      doLogin P c s = readLogin P (Do P (sent s) req) (s\<lparr>sent := sent s @ [LoginCall req]\<rparr>)))"
  by (simp add: doLogin_decompose split: option.splits sum.splits)

lemma doLogin_sent_call:
  assumes "sent (snd (doLogin P c s)) = sent s @ [LoginCall req]"
  shows "apikey s = [] \<and>
         doLogin P c s = readLogin P (Do P (sent s) req) (s\<lparr>sent := sent s @ [LoginCall req]\<rparr>)"
proof -
  from doLogin_untouched[of P c s] assms obtain req' where
    r: "apikey s = []"
       "doLogin P c s = readLogin P (Do P (sent s) req') (s\<lparr>sent := sent s @ [LoginCall req']\<rparr>)"
    by auto
  with assms have "req' = req" by (simp add: readLogin_fields)
  with r show ?thesis by simp
qed

text \<open>With a cached key, \<open>doLogin\<close> returns right after building its request.\<close>

lemma doLogin_cached:
  "apikey s \<noteq> [] \<Longrightarrow>
   doLogin P c s =
     (case NewRequest_err P ''POST'' (URL_String P (JoinPath P (ApiUrl c) [''login''])) of
        Some err \<Rightarrow> (Return (Some (External err)), s)
      | None \<Rightarrow> (Return None, s))"
  by (simp add: doLogin_decompose split: option.splits)

lemma doLogin_log:
  "\<exists>evs. sent (snd (doLogin P c s)) = sent s @ evs \<and> (evs = [] \<or> (\<exists>req. evs = [LoginCall req]))"
  using doLogin_untouched[of P c s] by (auto simp: readLogin_fields)

text \<open>
  \<open>doRequest\<close> adds at most its own call to the log that \<open>doLogin\<close> leaves, none if
  \<open>doLogin\<close> failed, and does not touch the cached key itself.
\<close>

lemma doRequest_log:
  "\<exists>rest. sent (snd (doRequest P c method url val s)) = sent (snd (doLogin P c s)) @ rest
          \<and> (rest = [] \<or> (\<exists>req. rest = [ApiCall req]))
          \<and> (fst (doLogin P c s) \<noteq> Return None \<longrightarrow> rest = [])"
  by (cases "doLogin P c s")
     (simp add: doRequest_def NewRequestWithContext_def Let_def
           split: option.splits sum.splits prod.splits outcome.splits)

lemma doRequest_apikey:
  "apikey (snd (doRequest P c method url val s)) = apikey (snd (doLogin P c s))"
  by (cases "doLogin P c s")
     (simp add: doRequest_def NewRequestWithContext_def Let_def
           split: option.splits sum.splits prod.splits outcome.splits)

text \<open>
  The call that \<open>doRequest\<close> adds has the method and URL it was given, and it is
  added whenever \<open>doLogin\<close> returned nil, a key is cached and the request is accepted.
  \<open>GetHosts\<close> makes the calls of its \<open>doRequest\<close>.
\<close>

lemma doRequest_target:
  "\<exists>rest. sent (snd (doRequest P c method url val s)) = sent (snd (doLogin P c s)) @ rest
     \<and> (rest = [] \<or> (\<exists>req. rest = [ApiCall req]))
     \<and> (\<forall>req. ApiCall req \<in> set rest \<longrightarrow> Method req = method \<and> URL req = url)
     \<and> (fst (doLogin P c s) = Return None \<and> apikey (snd (doLogin P c s)) \<noteq> []
          \<and> NewRequest_err P method url = None \<longrightarrow> rest \<noteq> [])"
  by (cases "doLogin P c s")
     (simp add: doRequest_def NewRequestWithContext_def Let_def
           split: option.splits sum.splits prod.splits outcome.splits)

lemma GetHosts_sent:
  "sent (snd (GetHosts P c name rtype s)) =
   sent (snd (doRequest P c ''GET'' (URL_String P (getApiWithPath P (ApiUrl c) name rtype)) [] s))"
  by (simp add: GetHosts_def Let_def split: prod.splits outcome.splits sum.splits)

text \<open>
  An error returned by \<open>doRequest\<close> comes from a library or starts with
  \<open>Could not login\<close>.
\<close>

lemma doRequest_error_shape:
  "fst (doRequest P c method url v s) = Return (Inl e) \<Longrightarrow>
     (\<exists>x. e = External x) \<or> (\<exists>t. e = errorString (CHR ''C'' # t))"
  by (cases "doLogin P c s")
     (auto simp: doRequest_def NewRequestWithContext_def Let_def Errorf_def
           split: option.splits sum.splits prod.splits outcome.splits if_splits)

text \<open>Formatting leaves a string without \<open>%\<close> as it is.\<close>

lemma doPrintf_no_percent: "CHR ''%'' \<notin> set fmt \<Longrightarrow> doPrintf P fmt = fmt"
  by (induction fmt) auto

text \<open>
  Every operation whose arguments pass its check hands over to \<open>doRequest\<close>; one whose
  arguments fail it changes nothing.
\<close>

lemma Println_fields: "sent (Println l s) = sent s" "apikey (Println l s) = apikey s"
  by (simp_all add: Println_def)

lemma perform_as_doRequest:
  "checked k \<Longrightarrow> \<exists>method url val.
     sent (perform P c k s) = sent (snd (doRequest P c method url val s)) \<and>
     apikey (perform P c k s) = apikey (snd (doRequest P c method url val s))"
proof (cases k)
  case (GetHostsCall n t)
  show ?thesis
    unfolding GetHostsCall perform.simps GetHosts_def Let_def
    by (rule exI[of _ "''GET''"], rule exI[of _ "URL_String P (getApiWithPath P (ApiUrl c) n t)"], rule exI[of _ "[]"])
       (simp split: prod.splits outcome.splits sum.splits)
next
  case (AddHostCall n t v)
  assume "checked k"
  then have ok: "n \<noteq> []" "t \<noteq> []" "v \<noteq> []" by (simp_all add: AddHostCall)
  show ?thesis
    unfolding AddHostCall perform.simps AddHost_def Let_def
    by (rule exI[of _ "''POST''"], rule exI[of _ "URL_String P (getApiWithPath P (ApiUrl c) n t)"], rule exI[of _ v])
       (simp add: ok Println_fields split: prod.splits outcome.splits sum.splits)
next
  case (UpdateHostCall n t v)
  assume "checked k"
  then have ok: "n \<noteq> []" "t \<noteq> []" "v \<noteq> []" by (simp_all add: UpdateHostCall)
  show ?thesis
    unfolding UpdateHostCall perform.simps UpdateHost_def Let_def
    by (rule exI[of _ "''PUT''"], rule exI[of _ "URL_String P (getApiWithPath P (ApiUrl c) n t)"], rule exI[of _ v])
       (simp add: ok Println_fields split: prod.splits outcome.splits sum.splits)
next
  case (DeleteHostCall n t v)
  assume "checked k"
  then have ok: "n \<noteq> []" by (simp_all add: DeleteHostCall)
  show ?thesis
    unfolding DeleteHostCall perform.simps DeleteHost_def Let_def
    by (rule exI[of _ "''DELETE''"], rule exI[of _ "URL_String P (getApiWithPath P (ApiUrl c) n t)"], rule exI[of _ v])
       (simp add: ok Println_fields split: prod.splits outcome.splits sum.splits)
next
  case GetZonesCall
  show ?thesis
    unfolding GetZonesCall perform.simps GetZones_def Let_def
    by (rule exI[of _ "''GET''"], rule exI[of _ "URL_String P (JoinPath P (ApiUrl c) [''dns'', ''zones''])"], rule exI[of _ "[]"])
       (simp split: prod.splits outcome.splits sum.splits)
next
  case (GetZonefileCall z)
  show ?thesis
    unfolding GetZonefileCall perform.simps GetZonefile_def Let_def
    by (rule exI[of _ "''GET''"], rule exI[of _ "URL_String P (JoinPath P (ApiUrl c) [''dns'', ''zonefile'', z])"], rule exI[of _ "[]"])
       (simp split: prod.splits outcome.splits sum.splits)
qed

lemma perform_unchecked: "\<not> checked k \<Longrightarrow> perform P c k s = s"
  by (cases k) (auto simp: AddHost_def UpdateHost_def DeleteHost_def)

text \<open>With a cached key, no operation touches the key or calls the login endpoint.\<close>

lemma perform_cached:
  assumes "apikey s \<noteq> []"
  shows "apikey (perform P c k s) = apikey s \<and> login_calls (sent (perform P c k s)) = login_calls (sent s)"
proof (cases "checked k")
  case False
  then show ?thesis by (simp add: perform_unchecked)
next
  case True
  from perform_as_doRequest[OF True, of P c s] obtain meth url val where
    eq: "sent (perform P c k s) = sent (snd (doRequest P c meth url val s))"
        "apikey (perform P c k s) = apikey (snd (doRequest P c meth url val s))" by blast
  have same: "snd (doLogin P c s) = s"
    using assms by (simp add: doLogin_cached split: option.splits)
  from doRequest_log[of P c meth url val s] obtain rest where
    r: "sent (snd (doRequest P c meth url val s)) = sent s @ rest"
       "rest = [] \<or> (\<exists>req. rest = [ApiCall req])" using same by auto
  have "login_calls (sent s @ rest) = login_calls (sent s)"
    using r(2) by (auto simp: login_calls_def)
  then show ?thesis using eq r(1) doRequest_apikey[of P c meth url val s] same by simp
qed

lemma perform_all_cached:
  "apikey s \<noteq> [] \<Longrightarrow>
   apikey (perform_all P ks s) = apikey s \<and>
   login_calls (sent (perform_all P ks s)) = login_calls (sent s)"
proof (induction ks arbitrary: s)
  case Nil
  then show ?case by simp
next
  case (Cons ck ks)
  obtain c k where ck: "ck = (c, k)" by (cases ck)
  from perform_cached[OF Cons.prems, of P c k]
  have step: "apikey (perform P c k s) = apikey s"
    "login_calls (sent (perform P c k s)) = login_calls (sent s)" by simp_all
  then have "apikey (perform P c k s) \<noteq> []" using Cons.prems by simp
  from Cons.IH[OF this] step show ?case by (simp add: ck)
qed

section \<open>Runs on the test double\<close>

lemmas stub_defs = stub_def replies_def unreachable_def admin_def fresh_def stub_gjson_def
  stub_records_def stub_status_def body_ok_def body_user_def body_invalid_def body_percent_def
  body_records_def body_zones_def

lemmas run_defs = doRequest_def doLogin_decompose buildLogin_def readLogin_def
  NewRequestWithContext_def sextet_def encodeStd_def

lemma login_admin_ok:
  "doLogin (stub (replies body_ok) api) admin fresh =
     (Return None,
      \<lparr>apikey = ''KEY1'',
       sent = [LoginCall \<lparr>Method = ''POST'', URL = ''https://box.example.com/admin/login'',
                 Headers = [(''Accept'', [''JSON'']),
                            (''Authorization'', [''Basic bWVAZXhhbXBsZS5jb206aHVudGVyMg==''])],
                 Body = None\<rparr>],
       stdout = [], stderr = []\<rparr>)"
  by (simp add: run_defs stub_defs)

lemma login_user_refused:
  "doLogin (stub (replies body_user) api) admin fresh =
     (Return (Some (errorString ''Account does not have admin priveleges'')),
      \<lparr>apikey = [],
       sent = [LoginCall \<lparr>Method = ''POST'', URL = ''https://box.example.com/admin/login'',
                 Headers = [(''Accept'', [''JSON'']),
                            (''Authorization'', [''Basic bWVAZXhhbXBsZS5jb206aHVudGVyMg==''])],
                 Body = None\<rparr>],
       stdout = [], stderr = []\<rparr>)"
  by (simp add: run_defs stub_defs Errorf_def)

section \<open>The claims\<close>

subsection \<open>C1: every operation logs in first\<close>

text \<open>
  C1, as the code has it: every public operation, \<open>GetZones\<close> and \<open>GetZonefile\<close>
  included, goes through \<open>doRequest\<close> and so runs \<open>doLogin\<close> before it issues its own
  HTTP request. For a call whose arguments pass the operation's parameter check, the
  log of HTTP calls after the operation is the log that \<open>doLogin\<close> leaves (run on the
  same state) followed by at most one call, the operation's own, and by none when
  \<open>doLogin\<close> did not return nil.
\<close>

theorem every_operation_logs_in_first:
  assumes "checked k"
  shows "\<exists>rest. sent (perform P c k s) = sent (snd (doLogin P c s)) @ rest
          \<and> (rest = [] \<or> (\<exists>req. rest = [ApiCall req]))
          \<and> (fst (doLogin P c s) \<noteq> Return None \<longrightarrow> rest = [])"
proof -
  from perform_as_doRequest[OF assms, of P c s] obtain meth url val where
    "sent (perform P c k s) = sent (snd (doRequest P c meth url val s))" by blast
  with doRequest_log[of P c meth url val s] show ?thesis by simp
qed

text \<open>
  C1, witness: \<open>GetZones\<close> on the test double, from a state with no cached key.
\<close>

theorem every_operation_logs_in_first_witness:
  "checked GetZonesCall
   \<and> (\<exists>rest. sent (perform (stub (replies body_ok) (replies body_zones)) admin GetZonesCall fresh)
          = sent (snd (doLogin (stub (replies body_ok) (replies body_zones)) admin fresh)) @ rest
        \<and> (rest = [] \<or> (\<exists>req. rest = [ApiCall req])))"
proof -
  have c: "checked GetZonesCall" by simp
  from every_operation_logs_in_first[OF c, of "stub (replies body_ok) (replies body_zones)" admin fresh]
  show ?thesis using c by blast
qed

text \<open>
  C1, counterexample to ``\<open>GetZones\<close> and \<open>GetZonefile\<close> do not perform the login step'':
  with no key cached, each of them first posts the credentials to the login URL and
  only then sends its own request, authorised with the key it got.
\<close>

theorem zone_operations_log_in:
  "sent (snd (GetZones (stub (replies body_ok) (replies body_zones)) admin fresh)) =
     [LoginCall \<lparr>Method = ''POST'', URL = ''https://box.example.com/admin/login'',
        Headers = [(''Accept'', [''JSON'']),
                   (''Authorization'', [''Basic bWVAZXhhbXBsZS5jb206aHVudGVyMg==''])],
        Body = None\<rparr>,
      ApiCall \<lparr>Method = ''GET'', URL = ''https://box.example.com/admin/dns/zones'',
        Headers = [(''Accept'', [''json'']),
                   (''Authorization'', [''Basic bWVAZXhhbXBsZS5jb206S0VZMQ==''])],
        Body = None\<rparr>]
   \<and> sent (snd (GetZonefile (stub (replies body_ok) (replies body_zones)) admin
                  ''example.com'' fresh)) =
     [LoginCall \<lparr>Method = ''POST'', URL = ''https://box.example.com/admin/login'',
        Headers = [(''Accept'', [''JSON'']),
                   (''Authorization'', [''Basic bWVAZXhhbXBsZS5jb206aHVudGVyMg==''])],
        Body = None\<rparr>,
      ApiCall \<lparr>Method = ''GET'',
        URL = ''https://box.example.com/admin/dns/zonefile/example.com'',
        Headers = [(''Accept'', [''json'']),
                   (''Authorization'', [''Basic bWVAZXhhbXBsZS5jb206S0VZMQ==''])],
        Body = None\<rparr>]"
  by (simp add: GetZones_def GetZonefile_def run_defs stub_defs)

subsection \<open>C2: a cached key is reused without a login call\<close>

text \<open>
  C2: when a non-empty key is cached, \<open>doLogin\<close> changes nothing (it makes no network
  call) and returns nil as soon as its request object is built; any sequence of
  operations, on any clients, keeps the key and adds no login call to the log. So if
  the key was cached by a \<open>doLogin\<close> that started without one and returned nil, the
  log holds exactly one more login call than before that login, however many
  operations follow.
\<close>

theorem cached_key_no_login_call:
  assumes "apikey s \<noteq> []"
  shows "snd (doLogin P c s) = s
       \<and> (NewRequest_err P ''POST'' (URL_String P (JoinPath P (ApiUrl c) [''login''])) = None
            \<longrightarrow> fst (doLogin P c s) = Return None)
       \<and> apikey (perform_all P ks s) = apikey s
       \<and> login_calls (sent (perform_all P ks s)) = login_calls (sent s)
       \<and> (\<forall>c0 s0. apikey s0 = [] \<and> doLogin P c0 s0 = (Return None, s) \<longrightarrow>
            (\<exists>req. login_calls (sent (perform_all P ks s)) = login_calls (sent s0) @ [LoginCall req]))"
proof -
  have a: "snd (doLogin P c s) = s"
    using assms by (simp add: doLogin_cached split: option.splits)
  have b: "NewRequest_err P ''POST'' (URL_String P (JoinPath P (ApiUrl c) [''login''])) = None
            \<longrightarrow> fst (doLogin P c s) = Return None"
    using assms by (simp add: doLogin_cached)
  note cd = perform_all_cached[OF assms, of P ks]
  have e: "\<exists>req. login_calls (sent (perform_all P ks s)) = login_calls (sent s0) @ [LoginCall req]"
    if h: "apikey s0 = []" "doLogin P c0 s0 = (Return None, s)" for c0 s0
  proof -
    have "s \<noteq> s0" using h(1) assms by auto
    with doLogin_untouched[of P c0 s0] h(2) obtain req where
      "doLogin P c0 s0 = readLogin P (Do P (sent s0) req) (s0\<lparr>sent := sent s0 @ [LoginCall req]\<rparr>)"
      by auto
    then have "sent (snd (doLogin P c0 s0)) = sent s0 @ [LoginCall req]"
      by (simp add: readLogin_fields)
    with h(2) have "sent s = sent s0 @ [LoginCall req]" by simp
    with cd show ?thesis by (auto simp: login_calls_def)
  qed
  from a b cd e show ?thesis by blast
qed

text \<open>
  C2, witness: a login on the test double, then three operations.
\<close>

theorem cached_key_no_login_call_witness:
  "apikey (snd (doLogin (stub (replies body_ok) (replies body_zones)) admin fresh)) \<noteq> []
   \<and> snd (doLogin (stub (replies body_ok) (replies body_zones)) admin
            (snd (doLogin (stub (replies body_ok) (replies body_zones)) admin fresh)))
       = snd (doLogin (stub (replies body_ok) (replies body_zones)) admin fresh)
   \<and> (\<exists>req. login_calls (sent (perform_all (stub (replies body_ok) (replies body_zones))
                 [(admin, GetZonesCall), (admin, GetHostsCall [] []), (admin, GetZonesCall)]
                 (snd (doLogin (stub (replies body_ok) (replies body_zones)) admin fresh))))
             = [LoginCall req])"
proof -
  let ?P = "stub (replies body_ok) (replies body_zones)"
  let ?s = "snd (doLogin ?P admin fresh)"
  have k: "apikey ?s \<noteq> []" by (simp add: login_admin_ok)
  have f: "apikey fresh = []" "login_calls (sent fresh) = []"
    by (simp_all add: fresh_def login_calls_def)
  have d: "doLogin ?P admin fresh = (Return None, ?s)" by (simp add: login_admin_ok)
  note t = cached_key_no_login_call[OF k,
      of ?P admin "[(admin, GetZonesCall), (admin, GetHostsCall [] []), (admin, GetZonesCall)]"]
  from t have "snd (doLogin ?P admin ?s) = ?s" by blast
  moreover from t f(1) d have "\<exists>req. login_calls (sent (perform_all ?P
        [(admin, GetZonesCall), (admin, GetHostsCall [] []), (admin, GetZonesCall)] ?s))
      = login_calls (sent fresh) @ [LoginCall req]" by blast
  ultimately show ?thesis using k f(2) by simp
qed

subsection \<open>C3: a failed login call\<close>

text \<open>
  The three ways a sent login request can fail. When \<open>Do\<close> hands back a response
  together with an error, or the body cannot be read, \<open>doLogin\<close> returns that error and
  caches no key. When \<open>Do\<close> hands back no response, as it does for a connection error,
  \<open>doLogin\<close> panics.
\<close>

lemma login_failure_returned:
  assumes "sent (snd (doLogin P c s)) = sent s @ [LoginCall req]"
  shows "Do P (sent s) req = (Some resp, Some e) \<Longrightarrow>
           fst (doLogin P c s) = Return (Some (External e)) \<and> apikey (snd (doLogin P c s)) = []"
    and "Do P (sent s) req = (Some resp, None) \<Longrightarrow> RespBody resp = Inl e \<Longrightarrow>
           fst (doLogin P c s) = Return (Some (External e)) \<and> apikey (snd (doLogin P c s)) = []"
    and "Do P (sent s) req = (None, e') \<Longrightarrow> fst (doLogin P c s) = Panic NilDereference"
  using doLogin_sent_call[OF assms] by (simp_all add: readLogin_def)

text \<open>
  C3, at a connection error: the network refuses the connection, \<open>Do\<close> returns a nil
  response and the error, and \<open>doLogin\<close> panics on \<open>defer resp.Body.Close()\<close> instead of
  returning the error.
\<close>

theorem login_connection_failure_panics:
  "Do (stub unreachable (replies body_records)) []
      \<lparr>Method = ''POST'', URL = ''https://box.example.com/admin/login'',
       Headers = [(''Accept'', [''JSON'']),
                  (''Authorization'', [''Basic bWVAZXhhbXBsZS5jb206aHVudGVyMg==''])],
       Body = None\<rparr>
     = (None, Some ''dial tcp: connection refused'')
   \<and> doLogin (stub unreachable (replies body_records)) admin fresh =
      (Panic NilDereference,
       \<lparr>apikey = [],
        sent = [LoginCall \<lparr>Method = ''POST'', URL = ''https://box.example.com/admin/login'',
                  Headers = [(''Accept'', [''JSON'']),
                             (''Authorization'', [''Basic bWVAZXhhbXBsZS5jb206aHVudGVyMg==''])],
                  Body = None\<rparr>],
        stdout = [], stderr = []\<rparr>)"
  by (simp add: run_defs stub_defs)

subsection \<open>C4: a login answered with status invalid\<close>

text \<open>
  On status \<open>invalid\<close> the key is cleared and the error is \<open>fmt.Errorf\<close> of
  \<open>Invalid response: \<close> followed by the reason, used as the format; its message is
  that text when the reason holds no \<open>%\<close>. A \<open>GetHosts\<close> issued with no key cached
  sends the login request again.
\<close>

lemma login_invalid_clears_key:
  assumes "sent (snd (doLogin P c s)) = sent s @ [LoginCall req]"
    and "Do P (sent s) req = (Some resp, None)"
    and "RespBody resp = Inr bodystr"
    and "gjson_Get P bodystr ''status'' = ''invalid''"
  shows "fst (doLogin P c s)
           = Return (Some (Errorf P (''Invalid response: '' @ gjson_Get P bodystr ''reason'')))"
    and "apikey (snd (doLogin P c s)) = []"
    and "CHR ''%'' \<notin> set (gjson_Get P bodystr ''reason'') \<Longrightarrow>
         fst (doLogin P c s)
           = Return (Some (errorString (''Invalid response: '' @ gjson_Get P bodystr ''reason'')))"
  using doLogin_sent_call[OF assms(1)] assms(2-4)
  by (simp_all add: readLogin_def Errorf_def doPrintf_no_percent)

lemma login_attempted_again:
  assumes "apikey s = []"
    and "NewRequest_err P ''POST'' (URL_String P (JoinPath P (ApiUrl c) [''login''])) = None"
    and "buildLogin P c s = Inr req"
  shows "\<exists>rest. sent (snd (GetHosts P c name rtype s)) = sent s @ LoginCall req # rest"
proof -
  have "sent (snd (doLogin P c s)) = sent s @ [LoginCall req]"
    using assms by (simp add: doLogin_decompose readLogin_fields)
  moreover from doRequest_log[of P c "''GET''" "URL_String P (getApiWithPath P (ApiUrl c) name rtype)" "[]" s]
  obtain rest where "sent (snd (doRequest P c ''GET''
      (URL_String P (getApiWithPath P (ApiUrl c) name rtype)) [] s)) = sent (snd (doLogin P c s)) @ rest"
    by blast
  moreover have "sent (snd (GetHosts P c name rtype s)) = sent (snd (doRequest P c ''GET''
      (URL_String P (getApiWithPath P (ApiUrl c) name rtype)) [] s))"
    by (simp add: GetHosts_def Let_def split: prod.splits outcome.splits sum.splits)
  ultimately show ?thesis by simp
qed

text \<open>
  C4, at a reason that holds a \<open>%\<close>: the server answers
  \<open>{status: invalid, reason: 50%d wrong}\<close> and the message of the returned error is
  \<open>Invalid response: 50%!d(MISSING) wrong\<close>, which does not carry the reason.
\<close>

theorem invalid_reason_with_percent:
  "gjson_Get (stub (replies body_percent) (replies body_records)) body_percent ''status''
     = ''invalid''
   \<and> gjson_Get (stub (replies body_percent) (replies body_records)) body_percent ''reason''
     = ''50%d wrong''
   \<and> fst (doLogin (stub (replies body_percent) (replies body_records)) admin fresh)
     = Return (Some (errorString ''Invalid response: 50%!d(MISSING) wrong''))"
  by (simp add: run_defs stub_defs Errorf_def plain_verb_def)

subsection \<open>C5: a login answered with status ok\<close>

text \<open>
  C5: when \<open>doLogin\<close> has sent its login request, the network has answered it and the
  body read has status \<open>ok\<close>, then: if \<open>privileges\<close> does not contain \<open>admin\<close>,
  \<open>doLogin\<close> returns the error \<open>Account does not have admin priveleges\<close> and no key is
  cached; otherwise it returns nil and the cached key is the \<open>api_key\<close> field.
\<close>

theorem login_ok_needs_admin:
  assumes "sent (snd (doLogin P c s)) = sent s @ [LoginCall req]"
    and "Do P (sent s) req = (Some resp, None)"
    and "RespBody resp = Inr bodystr"
    and "gjson_Get P bodystr ''status'' = ''ok''"
  shows "(\<not> Contains (gjson_Get P bodystr ''privileges'') ''admin'' \<longrightarrow>
            fst (doLogin P c s)
              = Return (Some (errorString ''Account does not have admin priveleges''))
            \<and> apikey (snd (doLogin P c s)) = [])
       \<and> (Contains (gjson_Get P bodystr ''privileges'') ''admin'' \<longrightarrow>
            fst (doLogin P c s) = Return None
            \<and> apikey (snd (doLogin P c s)) = gjson_Get P bodystr ''api_key'')"
proof -
  from doLogin_sent_call[OF assms(1)] have
    k: "apikey s = []" and
    d: "doLogin P c s = readLogin P (Do P (sent s) req) (s\<lparr>sent := sent s @ [LoginCall req]\<rparr>)"
    by simp_all
  show ?thesis
    unfolding d using k assms(2-4) by (simp add: readLogin_def Errorf_def)
qed

text \<open>
  C5, witness: an administrator's and an ordinary user's login on the test double.
\<close>

theorem login_ok_needs_admin_witness:
  "fst (doLogin (stub (replies body_ok) (replies body_zones)) admin fresh) = Return None
   \<and> apikey (snd (doLogin (stub (replies body_ok) (replies body_zones)) admin fresh)) = ''KEY1''
   \<and> fst (doLogin (stub (replies body_user) (replies body_zones)) admin fresh)
       = Return (Some (errorString ''Account does not have admin priveleges''))
   \<and> apikey (snd (doLogin (stub (replies body_user) (replies body_zones)) admin fresh)) = []"
proof -
  let ?req = "\<lparr>Method = ''POST'', URL = ''https://box.example.com/admin/login'',
                 Headers = [(''Accept'', [''JSON'']),
                            (''Authorization'', [''Basic bWVAZXhhbXBsZS5jb206aHVudGVyMg==''])],
                 Body = None\<rparr>"
  let ?P = "stub (replies body_ok) (replies body_zones)"
  let ?Q = "stub (replies body_user) (replies body_zones)"
  have p1: "sent (snd (doLogin ?P admin fresh)) = sent fresh @ [LoginCall ?req]"
    by (simp add: login_admin_ok) (simp add: fresh_def)
  have p2: "Do ?P (sent fresh) ?req = (Some \<lparr>RespBody = Inr body_ok\<rparr>, None)"
    by (simp add: stub_defs)
  have p3: "RespBody \<lparr>RespBody = Inr body_ok\<rparr> = Inr body_ok" by simp
  have p4: "gjson_Get ?P body_ok ''status'' = ''ok''" by (simp add: stub_defs)
  have p5: "Contains (gjson_Get ?P body_ok ''privileges'') ''admin''"
    "gjson_Get ?P body_ok ''api_key'' = ''KEY1''" by (simp_all add: stub_defs)
  have q1: "sent (snd (doLogin ?Q admin fresh)) = sent fresh @ [LoginCall ?req]"
    by (simp add: login_user_refused) (simp add: fresh_def)
  have q2: "Do ?Q (sent fresh) ?req = (Some \<lparr>RespBody = Inr body_user\<rparr>, None)"
    by (simp add: stub_defs)
  have q3: "RespBody \<lparr>RespBody = Inr body_user\<rparr> = Inr body_user" by simp
  have q4: "gjson_Get ?Q body_user ''status'' = ''ok''" by (simp add: stub_defs)
  have q5: "\<not> Contains (gjson_Get ?Q body_user ''privileges'') ''admin''"
    by (simp add: stub_defs)
  from login_ok_needs_admin[OF p1 p2 p3 p4] p5 login_ok_needs_admin[OF q1 q2 q3 q4] q5
  show ?thesis by simp
qed

subsection \<open>C6: the parameters of AddHost and UpdateHost\<close>

text \<open>
  C6: when \<open>name\<close>, \<open>recordType\<close> or \<open>value\<close> is empty, \<open>AddHost\<close> and \<open>UpdateHost\<close> return
  their \<open>Missing parameters\<close> error and leave the state as it was: no HTTP call, the
  login included, is made. When all three are non-empty, neither returns an error of
  that kind.
\<close>

theorem host_parameters_required:
  "(name = [] \<or> recordType = [] \<or> val = [] \<longrightarrow>
      AddHost P c name recordType val s =
        (Return (Some (errorString
           (''Missing parameters to AddHost. all are required. name: '' @ name
            @ '', recordType: '' @ recordType @ '', value: '' @ val @ '' ''))), s)
    \<and> UpdateHost P c name recordType val s =
        (Return (Some (errorString
           (''Missing parameters to UpdateHost. all are required. name: '' @ name
            @ '', recordType: '' @ recordType @ '', value: '' @ val @ '' ''))), s))
   \<and> (name \<noteq> [] \<and> recordType \<noteq> [] \<and> val \<noteq> [] \<longrightarrow>
      (\<forall>m. fst (AddHost P c name recordType val s)
             \<noteq> Return (Some (errorString (''Missing parameters to AddHost'' @ m))))
    \<and> (\<forall>m. fst (UpdateHost P c name recordType val s)
             \<noteq> Return (Some (errorString (''Missing parameters to UpdateHost'' @ m)))))"
proof -
  have add: "fst (AddHost P c name recordType val s) \<noteq> Return (Some (errorString (CHR ''M'' # m)))"
    if "name \<noteq> []" "recordType \<noteq> []" "val \<noteq> []" for m
  proof
    assume h: "fst (AddHost P c name recordType val s) = Return (Some (errorString (CHR ''M'' # m)))"
    have "fst (doRequest P c ''POST'' (URL_String P (getApiWithPath P (ApiUrl c) name recordType)) val s)
            = Return (Inl (errorString (CHR ''M'' # m)))"
      using h that
      by (simp add: AddHost_def Let_def split: prod.splits outcome.splits sum.splits)
    from doRequest_error_shape[OF this] show False by simp
  qed
  have upd: "fst (UpdateHost P c name recordType val s) \<noteq> Return (Some (errorString (CHR ''M'' # m)))"
    if "name \<noteq> []" "recordType \<noteq> []" "val \<noteq> []" for m
  proof
    assume h: "fst (UpdateHost P c name recordType val s) = Return (Some (errorString (CHR ''M'' # m)))"
    have "fst (doRequest P c ''PUT'' (URL_String P (getApiWithPath P (ApiUrl c) name recordType)) val s)
            = Return (Inl (errorString (CHR ''M'' # m)))"
      using h that
      by (simp add: UpdateHost_def Let_def split: prod.splits outcome.splits sum.splits)
    from doRequest_error_shape[OF this] show False by simp
  qed
  have first: "name = [] \<or> recordType = [] \<or> val = [] \<Longrightarrow>
      AddHost P c name recordType val s =
        (Return (Some (errorString
           (''Missing parameters to AddHost. all are required. name: '' @ name
            @ '', recordType: '' @ recordType @ '', value: '' @ val @ '' ''))), s)
    \<and> UpdateHost P c name recordType val s =
        (Return (Some (errorString
           (''Missing parameters to UpdateHost. all are required. name: '' @ name
            @ '', recordType: '' @ recordType @ '', value: '' @ val @ '' ''))), s)"
    by (simp add: AddHost_def UpdateHost_def)
  have second: "name \<noteq> [] \<and> recordType \<noteq> [] \<and> val \<noteq> [] \<Longrightarrow>
      (\<forall>m. fst (AddHost P c name recordType val s)
             \<noteq> Return (Some (errorString (''Missing parameters to AddHost'' @ m))))
    \<and> (\<forall>m. fst (UpdateHost P c name recordType val s)
             \<noteq> Return (Some (errorString (''Missing parameters to UpdateHost'' @ m))))"
    using add upd by simp
  from first second show ?thesis by blast
qed

text \<open>
  C6, witness: the three calls of the specification's example, on the test double.
\<close>

theorem host_parameters_required_witness:
  "AddHost (stub (replies body_ok) (replies body_zones)) admin [] ''A'' ''1.2.3.4'' fresh =
     (Return (Some (errorString
        ''Missing parameters to AddHost. all are required. name: , recordType: A, value: 1.2.3.4 '')),
      fresh)
   \<and> UpdateHost (stub (replies body_ok) (replies body_zones)) admin ''host'' ''A'' [] fresh =
     (Return (Some (errorString
        ''Missing parameters to UpdateHost. all are required. name: host, recordType: A, value:  '')),
      fresh)
   \<and> fst (AddHost (stub (replies body_ok) (replies body_zones)) admin ''host'' ''A'' ''1.2.3.4'' fresh)
       \<noteq> Return (Some (errorString
        ''Missing parameters to AddHost. all are required. name: host, recordType: A, value: 1.2.3.4 ''))"
  using host_parameters_required[of "[]" "''A''" "''1.2.3.4''"
          "stub (replies body_ok) (replies body_zones)" admin fresh]
        host_parameters_required[of "''host''" "''A''" "[]"
          "stub (replies body_ok) (replies body_zones)" admin fresh]
        host_parameters_required[of "''host''" "''A''" "''1.2.3.4''"
          "stub (replies body_ok) (replies body_zones)" admin fresh]
  by simp

subsection \<open>C7: decoding a list of records\<close>

text \<open>
  The three cases of \<open>unmarshalRecords\<close>: a body that parses as a list of records
  gives that list; when neither parse succeeds the first parse's error is returned;
  when only the status parse succeeds the error is \<open>fmt.Errorf\<close> of
  \<open>Error while decoding json: \<close> followed by the reason, used as the format, and its
  message is that text when the reason holds no \<open>%\<close>.
\<close>

lemma unmarshalRecords_cases:
  "Unmarshal_DNSRecords P data = Inr records \<Longrightarrow> unmarshalRecords P data = Inr records"
  "Unmarshal_DNSRecords P data = Inl err \<Longrightarrow> Unmarshal_APIStatus P data = Inl err2 \<Longrightarrow>
     unmarshalRecords P data = Inl (External err)"
  "Unmarshal_DNSRecords P data = Inl err \<Longrightarrow> Unmarshal_APIStatus P data = Inr st \<Longrightarrow>
     unmarshalRecords P data = Inl (Errorf P (''Error while decoding json: '' @ Reason st))"
  "Unmarshal_DNSRecords P data = Inl err \<Longrightarrow> Unmarshal_APIStatus P data = Inr st \<Longrightarrow>
     CHR ''%'' \<notin> set (Reason st) \<Longrightarrow>
     unmarshalRecords P data = Inl (errorString (''Error while decoding json: '' @ Reason st))"
  by (simp_all add: unmarshalRecords_def Errorf_def doPrintf_no_percent)

text \<open>
  C7, at a reason that holds a \<open>%\<close>: the body \<open>{status: invalid, reason: 50%d wrong}\<close>
  is no list of records but is a status, and the message of the returned error is
  \<open>Error while decoding json: 50%!d(MISSING) wrong\<close>, which does not carry the reason.
\<close>

theorem decode_reason_with_percent:
  "Unmarshal_DNSRecords (stub (replies body_ok) (replies body_percent)) body_percent
     = Inl ''json: cannot unmarshal object into Go value of type []gomiabdns.DNSRecord''
   \<and> Unmarshal_APIStatus (stub (replies body_ok) (replies body_percent)) body_percent
     = Inr \<lparr>Status = ''invalid'', Reason = ''50%d wrong''\<rparr>
   \<and> unmarshalRecords (stub (replies body_ok) (replies body_percent)) body_percent
     = Inl (errorString ''Error while decoding json: 50%!d(MISSING) wrong'')"
  by (simp add: unmarshalRecords_def stub_defs Errorf_def plain_verb_def)

subsection \<open>C8: the headers of an API request\<close>

text \<open>
  C8: every request that \<open>doRequest\<close> sends after the login step has exactly the
  headers \<open>Accept: json\<close> and \<open>Authorization: Basic \<close> followed by the base64 encoding of
  \<open>email:apikey\<close>, where \<open>apikey\<close> is the cached key (non-empty) and not the password; it
  has the method and URL that \<open>doRequest\<close> was given, and \<open>doRequest\<close> itself makes no
  login call.
\<close>

theorem api_request_headers:
  "\<exists>rest. sent (snd (doRequest P c method url val s)) = sent (snd (doLogin P c s)) @ rest
     \<and> (\<forall>req. ApiCall req \<in> set rest \<longrightarrow>
           Headers req =
             [(''Accept'', [''json'']),
              (''Authorization'',
               [''Basic '' @ EncodeToString
                  (email c @ '':'' @ apikey (snd (doRequest P c method url val s)))])]
           \<and> apikey (snd (doRequest P c method url val s)) \<noteq> []
           \<and> Method req = method \<and> URL req = url)
     \<and> (\<forall>req. LoginCall req \<notin> set rest)"
  by (cases "doLogin P c s")
     (simp add: doRequest_def NewRequestWithContext_def Let_def
           split: option.splits sum.splits prod.splits outcome.splits)

text \<open>
  C8, witness: a \<open>GET\<close> on the test double, sent with the key \<open>KEY1\<close>.
\<close>

theorem api_request_headers_witness:
  "\<exists>req. sent (snd (doRequest (stub (replies body_ok) (replies body_zones)) admin ''GET''
                      ''https://box.example.com/admin/dns/zones'' [] fresh))
           = sent (snd (doLogin (stub (replies body_ok) (replies body_zones)) admin fresh))
             @ [ApiCall req]
        \<and> Headers req = [(''Accept'', [''json'']),
                          (''Authorization'', [''Basic bWVAZXhhbXBsZS5jb206S0VZMQ==''])]"
proof -
  let ?P = "stub (replies body_ok) (replies body_zones)"
  let ?u = "''https://box.example.com/admin/dns/zones''"
  from api_request_headers[of ?P admin "''GET''" ?u "[]" fresh] obtain rest where
    r: "sent (snd (doRequest ?P admin ''GET'' ?u [] fresh)) = sent (snd (doLogin ?P admin fresh)) @ rest"
    and h: "\<forall>req. ApiCall req \<in> set rest \<longrightarrow>
           Headers req =
             [(''Accept'', [''json'']),
              (''Authorization'',
               [''Basic '' @ EncodeToString
                  (email admin @ '':'' @ apikey (snd (doRequest ?P admin ''GET'' ?u [] fresh)))])]"
    by blast
  have e: "doRequest ?P admin ''GET'' ?u [] fresh =
     (Return (Inr body_zones),
      \<lparr>apikey = ''KEY1'',
       sent = [LoginCall \<lparr>Method = ''POST'', URL = ''https://box.example.com/admin/login'',
                 Headers = [(''Accept'', [''JSON'']),
                            (''Authorization'', [''Basic bWVAZXhhbXBsZS5jb206aHVudGVyMg==''])],
                 Body = None\<rparr>,
               ApiCall \<lparr>Method = ''GET'', URL = ''https://box.example.com/admin/dns/zones'',
                 Headers = [(''Accept'', [''json'']),
                            (''Authorization'', [''Basic bWVAZXhhbXBsZS5jb206S0VZMQ==''])],
                 Body = None\<rparr>],
       stdout = [], stderr = []\<rparr>)"
    by (simp add: run_defs stub_defs)
  from r have "rest = [ApiCall \<lparr>Method = ''GET'', URL = ''https://box.example.com/admin/dns/zones'',
                 Headers = [(''Accept'', [''json'']),
                            (''Authorization'', [''Basic bWVAZXhhbXBsZS5jb206S0VZMQ==''])],
                 Body = None\<rparr>]"
    by (simp add: e login_admin_ok)
  with r h show ?thesis by (simp add: e)
qed

subsection \<open>C9: an unknown command\<close>

text \<open>
  C9, as the code has it: when the \<open>-command\<close> flag is neither empty nor one of the six
  commands, \<open>main\<close> prints the usage line on standard output and returns: the exit
  status is 0, nothing is written to standard error and no HTTP call is made. An empty
  \<open>-command\<close> is run as \<open>list\<close>.
\<close>

theorem unknown_command_prints_usage:
  assumes "flag_command fl \<noteq> []" and "flag_command fl \<notin> set commands"
  shows "main P fl s =
           (Return (),
            s\<lparr>stdout := stdout s @
                 ''The command argument must be a valid command: list,add,update,delete,zones,zonefile''
                 @ [CHR 0x0A]\<rparr>)
         \<and> exit_status (fst (main P fl s)) = 0
         \<and> stderr (snd (main P fl s)) = stderr s
         \<and> sent (snd (main P fl s)) = sent s
         \<and> main P (fl\<lparr>flag_command := []\<rparr>) s = main P (fl\<lparr>flag_command := ''list''\<rparr>) s"
proof -
  have j: "Join commands '','' = ''list,add,update,delete,zones,zonefile''"
    by (simp add: commands_def)
  have e: "main P (fl\<lparr>flag_command := []\<rparr>) s = main P (fl\<lparr>flag_command := ''list''\<rparr>) s"
    by (cases "New P (flag_url fl) (flag_email fl) (flag_password fl) (flag_totp fl)")
       (simp_all add: main_def commands_def getRecords_def Let_def)
  show ?thesis using assms e by (simp add: main_def Println_def j)
qed

text \<open>
  C9, witness: the command \<open>bogus\<close>.
\<close>

theorem unknown_command_prints_usage_witness:
  "flag_command (flags_for ''bogus'') \<noteq> []
   \<and> flag_command (flags_for ''bogus'') \<notin> set commands
   \<and> exit_status (fst (main (stub (replies body_ok) (replies body_zones))
                           (flags_for ''bogus'') fresh)) = 0
   \<and> stderr (snd (main (stub (replies body_ok) (replies body_zones))
                      (flags_for ''bogus'') fresh)) = stderr fresh
   \<and> sent (snd (main (stub (replies body_ok) (replies body_zones))
                    (flags_for ''bogus'') fresh)) = sent fresh"
proof -
  have a: "flag_command (flags_for ''bogus'') \<noteq> []"
    and b: "flag_command (flags_for ''bogus'') \<notin> set commands"
    by (simp_all add: flags_for_def commands_def)
  from unknown_command_prints_usage[OF a b, of "stub (replies body_ok) (replies body_zones)" fresh]
  show ?thesis using a b by simp
qed

text \<open>
  C9, counterexample to ``a non-zero exit status and the message on standard error'':
  for the command \<open>bogus\<close> the usage line goes to standard output, standard error stays
  empty and the exit status is 0; and the empty command, which is not one of the six
  either, is run as \<open>list\<close> and prints the table of records.
\<close>

theorem unknown_command_exits_zero:
  "main (stub (replies body_ok) (replies body_records)) (flags_for ''bogus'') fresh =
     (Return (),
      \<lparr>apikey = [], sent = [],
       stdout = ''The command argument must be a valid command: list,add,update,delete,zones,zonefile''
                @ [CHR 0x0A],
       stderr = []\<rparr>)
   \<and> exit_status (fst (main (stub (replies body_ok) (replies body_records))
                           (flags_for ''bogus'') fresh)) = 0
   \<and> fst (main (stub (replies body_ok) (replies body_records)) (flags_for []) fresh) = Return ()
   \<and> stdout (snd (main (stub (replies body_ok) (replies body_records)) (flags_for []) fresh)) =
       ''Name'' @ [CHR 0x09] @ '' Type'' @ [CHR 0x09] @ '' Value'' @ [CHR 0x0A]
       @ ''h.example.com'' @ [CHR 0x09] @ '' A'' @ [CHR 0x09] @ '' 1.2.3.4'' @ [CHR 0x0A]"
  by (simp add: main_def commands_def Println_def flags_for_def New_def getRecords_def
        GetHosts_def getApiWithPath_def unmarshalRecords_def printRecords_def
        run_defs stub_defs Let_def)

subsection \<open>C10: a record type without a name\<close>

text \<open>
  C10: with an empty name, \<open>getApiWithPath\<close> returns the base URL joined with
  \<open>dns\<close> and \<open>custom\<close> whatever the record type is, the same URL as with both empty,
  and \<open>GetHosts\<close> behaves exactly as it does with both empty. The request of such a
  \<open>GetHosts\<close> call is a \<open>GET\<close> of exactly that URL: the call adds to the log that
  \<open>doLogin\<close> leaves at most one request, every request it adds has that method and
  URL, and it does add one whenever \<open>doLogin\<close> returned nil with a key cached and the
  request is accepted.
\<close>

theorem empty_name_ignores_type:
  "getApiWithPath P u [] rtype = JoinPath P u [''dns'', ''custom'']
   \<and> getApiWithPath P u [] rtype = getApiWithPath P u [] []
   \<and> GetHosts P c [] rtype s = GetHosts P c [] [] s
   \<and> (\<exists>rest. sent (snd (GetHosts P c [] rtype s)) = sent (snd (doLogin P c s)) @ rest
        \<and> (rest = [] \<or> (\<exists>req. rest = [ApiCall req]))
        \<and> (\<forall>req. ApiCall req \<in> set rest \<longrightarrow>
              Method req = ''GET''
              \<and> URL req = URL_String P (JoinPath P (ApiUrl c) [''dns'', ''custom'']))
        \<and> (fst (doLogin P c s) = Return None \<and> apikey (snd (doLogin P c s)) \<noteq> []
             \<and> NewRequest_err P ''GET''
                  (URL_String P (JoinPath P (ApiUrl c) [''dns'', ''custom''])) = None
             \<longrightarrow> rest \<noteq> []))"
proof -
  have u: "getApiWithPath P v [] rtype = JoinPath P v [''dns'', ''custom'']" for v
    by (simp add: getApiWithPath_def)
  have g: "GetHosts P c [] rtype s = GetHosts P c [] [] s"
    by (simp add: getApiWithPath_def GetHosts_def)
  have r: "\<exists>rest. sent (snd (GetHosts P c [] rtype s)) = sent (snd (doLogin P c s)) @ rest
        \<and> (rest = [] \<or> (\<exists>req. rest = [ApiCall req]))
        \<and> (\<forall>req. ApiCall req \<in> set rest \<longrightarrow>
              Method req = ''GET''
              \<and> URL req = URL_String P (JoinPath P (ApiUrl c) [''dns'', ''custom'']))
        \<and> (fst (doLogin P c s) = Return None \<and> apikey (snd (doLogin P c s)) \<noteq> []
             \<and> NewRequest_err P ''GET''
                  (URL_String P (JoinPath P (ApiUrl c) [''dns'', ''custom''])) = None
             \<longrightarrow> rest \<noteq> [])"
    using doRequest_target[of P c "''GET''"
            "URL_String P (JoinPath P (ApiUrl c) [''dns'', ''custom''])" "[]" s]
    by (simp add: GetHosts_sent u)
  from u[of u] g r show ?thesis by (simp add: getApiWithPath_def)
qed

text \<open>
  C10, witness: type \<open>A\<close> and no name on the test double; the request sent is a
  \<open>GET\<close> of \<open>https://box.example.com/admin/dns/custom\<close>.
\<close>

theorem empty_name_ignores_type_witness:
  "getApiWithPath (stub (replies body_ok) (replies body_records))
      ''https://box.example.com/admin'' [] ''A''
     = ''https://box.example.com/admin/dns/custom''
   \<and> GetHosts (stub (replies body_ok) (replies body_records)) admin [] ''A'' fresh
     = GetHosts (stub (replies body_ok) (replies body_records)) admin [] [] fresh
   \<and> (\<exists>req. sent (snd (GetHosts (stub (replies body_ok) (replies body_records)) admin [] ''A''
                          fresh))
          = sent (snd (doLogin (stub (replies body_ok) (replies body_records)) admin fresh))
            @ [ApiCall req]
        \<and> Method req = ''GET''
        \<and> URL req = ''https://box.example.com/admin/dns/custom'')"
proof -
  let ?P = "stub (replies body_ok) (replies body_records)"
  note t = empty_name_ignores_type[of ?P "''https://box.example.com/admin''" "''A''" admin fresh]
  from t have a: "getApiWithPath ?P ''https://box.example.com/admin'' [] ''A''
     = ''https://box.example.com/admin/dns/custom''"
    by (simp add: stub_def)
  from t have b: "GetHosts ?P admin [] ''A'' fresh = GetHosts ?P admin [] [] fresh" by blast
  from t obtain rest where
    r: "sent (snd (GetHosts ?P admin [] ''A'' fresh)) = sent (snd (doLogin ?P admin fresh)) @ rest"
    and o: "rest = [] \<or> (\<exists>req. rest = [ApiCall req])"
    and h: "\<forall>req. ApiCall req \<in> set rest \<longrightarrow>
              Method req = ''GET''
              \<and> URL req = URL_String ?P (JoinPath ?P (ApiUrl admin) [''dns'', ''custom''])"
    and n: "fst (doLogin ?P admin fresh) = Return None \<and> apikey (snd (doLogin ?P admin fresh)) \<noteq> []
             \<and> NewRequest_err ?P ''GET''
                  (URL_String ?P (JoinPath ?P (ApiUrl admin) [''dns'', ''custom''])) = None
             \<longrightarrow> rest \<noteq> []"
    by blast
  have "fst (doLogin ?P admin fresh) = Return None" "apikey (snd (doLogin ?P admin fresh)) \<noteq> []"
    by (simp_all add: login_admin_ok)
  moreover have "NewRequest_err ?P ''GET''
        (URL_String ?P (JoinPath ?P (ApiUrl admin) [''dns'', ''custom''])) = None"
    by (simp add: stub_def)
  ultimately have "rest \<noteq> []" using n by blast
  with o obtain req where q: "rest = [ApiCall req]" by blast
  with h have "Method req = ''GET''"
    "URL req = URL_String ?P (JoinPath ?P (ApiUrl admin) [''dns'', ''custom''])" by simp_all
  then have "Method req = ''GET''" "URL req = ''https://box.example.com/admin/dns/custom''"
    by (simp_all add: stub_def admin_def)
  with r q a b show ?thesis by blast
qed

end
